theory Spec2Isabelle
  imports Complex_Main "HOL-Library.Word" "HOL-Library.Sublist"
begin

unbundle bit_operations_syntax

section \<open>Pattern Matcher (worker.ts, \<open>matches\<close>)\<close>

text \<open>
  JavaScript's \<open>String.prototype.endsWith(searchString)\<close> with no end position,
  following the steps of the language specification: with \<open>len\<close> the length of the
  receiver and \<open>searchLength\<close> the length of the search string, \<open>start = len - searchLength\<close>;
  the result is false when \<open>start < 0\<close>, and otherwise says whether the code units
  of the receiver from \<open>start\<close> to \<open>len\<close> are those of the search string.
  The public key is a base-58 text, so its code units are single bytes.
\<close>

definition endsWith :: "string \<Rightarrow> string \<Rightarrow> bool" where
  "endsWith s searchString =
     (let len = int (length s);
          searchLength = int (length searchString);
          start = len - searchLength
      in if start < 0 then False
         else drop (nat start) s = searchString)"

text \<open>\<open>function matches(pub, pattern) { return pub.endsWith(pattern); }\<close>\<close>

definition matches :: "string \<Rightarrow> string \<Rightarrow> bool" where
  "matches pub pattern = endsWith pub pattern"

section \<open>Secret Sealer (crypto.ts)\<close>

type_synonym byte = "8 word"

text \<open>
  The errors the two source files can raise, one constructor per \<open>throw\<close> site or
  per error of a collaborator that the code lets through:
  \<^item> \<open>KeyNotSet\<close>: \<open>new Error('VANITY_ENCRYPTION_KEY not set')\<close>, thrown by \<open>getKey\<close>;
  \<^item> \<open>InvalidIV\<close>: node:crypto's "Invalid initialization vector", thrown by
    \<open>createCipheriv\<close> and \<open>createDecipheriv\<close> for an empty nonce;
  \<^item> \<open>InvalidKeyLength\<close>: node:crypto's "Invalid key length", thrown by the same two
    constructors when the key of \<open>aes-256-gcm\<close> is not 32 bytes long;
  \<^item> \<open>InvalidAuthTagLength\<close>: node:crypto's "Invalid authentication tag length",
    thrown by \<open>setAuthTag\<close>;
  \<^item> \<open>AuthFailed\<close>: node:crypto's "Unsupported state or unable to authenticate data",
    the plain \<open>Error\<close> thrown by \<open>decipher.final()\<close> when the tag does not verify;
  \<^item> \<open>PrismaError code\<close>: an error thrown by the database client, with its \<open>code\<close>
    property (\<open>P2002\<close> is the unique-constraint violation).
  The source declares no error class of its own.
\<close>

datatype error =
    KeyNotSet
  | InvalidIV
  | InvalidKeyLength
  | InvalidAuthTagLength
  | AuthFailed
  | PrismaError string

text \<open>
  The primitives of node:crypto (OpenSSL) that crypto.ts calls are not part of the
  repository; they are a parameter of the model: the SHA-256 digest, and AES-256-GCM
  as an encryption function from key, nonce and plaintext to ciphertext and tag, and a
  verifying decryption from key, nonce, tag and ciphertext to the plaintext, or \<open>None\<close>
  when the tag does not verify.
\<close>

record cryptolib =
  sha256 :: "byte list \<Rightarrow> byte list"
  gcm_encrypt :: "byte list \<Rightarrow> byte list \<Rightarrow> byte list \<Rightarrow> byte list \<times> byte list"
  gcm_decrypt :: "byte list \<Rightarrow> byte list \<Rightarrow> byte list \<Rightarrow> byte list \<Rightarrow> byte list option"

record process_env =
  VANITY_ENCRYPTION_KEY :: "string option"

text \<open>\<open>const IV_LENGTH = 12; // AES-GCM recommended\<close>\<close>

definition IV_LENGTH :: nat where
  "IV_LENGTH = 12"

subsection \<open>The two regular expressions of \<open>getKey\<close>\<close>

text \<open>\<open>/^[A-Fa-f0-9]{64}$/\<close>\<close>

definition isHexChar :: "char \<Rightarrow> bool" where
  "isHexChar c =
     (let n = (of_char c :: nat)
      in (65 \<le> n \<and> n \<le> 70) \<or> (97 \<le> n \<and> n \<le> 102) \<or> (48 \<le> n \<and> n \<le> 57))"

definition isHex64 :: "string \<Rightarrow> bool" where
  "isHex64 key = (length key = 64 \<and> list_all isHexChar key)"

text \<open>\<open>/^[A-Za-z0-9+/=]{43,45}$/\<close>\<close>

definition isBase64Char :: "char \<Rightarrow> bool" where
  "isBase64Char c =
     (let n = (of_char c :: nat)
      in (65 \<le> n \<and> n \<le> 90) \<or> (97 \<le> n \<and> n \<le> 122) \<or> (48 \<le> n \<and> n \<le> 57)
         \<or> n = 43 \<or> n = 47 \<or> n = 61)"

definition isBase64_43_45 :: "string \<Rightarrow> bool" where
  "isBase64_43_45 key = (43 \<le> length key \<and> length key \<le> 45 \<and> list_all isBase64Char key)"

subsection \<open>\<open>Buffer.from(key, 'hex')\<close> and \<open>Buffer.from(key, 'base64')\<close>\<close>

definition hexval :: "char \<Rightarrow> nat option" where
  "hexval c =
     (let n = (of_char c :: nat)
      in if 48 \<le> n \<and> n \<le> 57 then Some (n - 48)
         else if 65 \<le> n \<and> n \<le> 70 then Some (n - 55)
         else if 97 \<le> n \<and> n \<le> 102 then Some (n - 87)
         else None)"

text \<open>
  Hex decoding takes the characters two at a time and stops at the first pair that is
  not two hex digits; a last single character is dropped.
\<close>

fun hex_decode :: "string \<Rightarrow> byte list" where
  "hex_decode (a # b # rest) =
     (case hexval a of
        None \<Rightarrow> []
      | Some h \<Rightarrow>
          (case hexval b of
             None \<Rightarrow> []
           | Some l \<Rightarrow> of_nat (16 * h + l) # hex_decode rest))"
| "hex_decode [a] = []"
| "hex_decode [] = []"

definition b64val :: "char \<Rightarrow> nat option" where
  "b64val c =
     (let n = (of_char c :: nat)
      in if 65 \<le> n \<and> n \<le> 90 then Some (n - 65)
         else if 97 \<le> n \<and> n \<le> 122 then Some (n - 71)
         else if 48 \<le> n \<and> n \<le> 57 then Some (n + 4)
         else if n = 43 then Some 62
         else if n = 47 then Some 63
         else None)"

text \<open>
  Four 6-bit values give three bytes; a last group of three gives two bytes, of two
  gives one byte, and a single left-over value gives none.
\<close>

fun b64_groups :: "nat list \<Rightarrow> byte list" where
  "b64_groups (a # b # c # d # rest) =
     of_nat (a * 4 + b div 16) # of_nat ((b mod 16) * 16 + c div 4)
       # of_nat ((c mod 4) * 64 + d) # b64_groups rest"
| "b64_groups [a, b, c] = [of_nat (a * 4 + b div 16), of_nat ((b mod 16) * 16 + c div 4)]"
| "b64_groups [a, b] = [of_nat (a * 4 + b div 16)]"
| "b64_groups [a] = []"
| "b64_groups [] = []"

text \<open>
  Node's base64 decoding does not reject anything: it decodes up to the first \<open>=\<close>
  and skips characters outside the alphabet (the second regular expression of
  \<open>getKey\<close> admits none of those).
\<close>

definition base64_decode :: "string \<Rightarrow> byte list" where
  "base64_decode s = b64_groups (List.map_filter b64val (takeWhile (\<lambda>c. c \<noteq> CHR ''='') s))"

text \<open>\<open>hash.update(key)\<close> with a string hashes its UTF-8 bytes.\<close>

definition utf8 :: "string \<Rightarrow> byte list" where
  "utf8 s = map of_char s"

subsection \<open>\<open>getKey\<close>\<close>

text \<open>
  \<^verbatim>\<open>
  const key = process.env.VANITY_ENCRYPTION_KEY;
  if (!key) throw new Error('VANITY_ENCRYPTION_KEY not set');
  // Use 32-byte key (base64 or hex supported); if raw string, hash to 32 bytes
  if (/^[A-Fa-f0-9]{64}$/.test(key)) return Buffer.from(key, 'hex');
  if (/^[A-Za-z0-9+/=]{43,45}$/.test(key)) return Buffer.from(key, 'base64');
  return crypto.createHash('sha256').update(key).digest();
  \<close>
  \<open>!key\<close> holds for an unset variable and for the empty string.
\<close>

definition getKey :: "cryptolib \<Rightarrow> process_env \<Rightarrow> error + byte list" where
  "getKey L env =
     (case VANITY_ENCRYPTION_KEY env of
        None \<Rightarrow> Inl KeyNotSet
      | Some key \<Rightarrow>
          if key = [] then Inl KeyNotSet
          else if isHex64 key then Inr (hex_decode key)
          else if isBase64_43_45 key then Inr (base64_decode key)
          else Inr (sha256 L (utf8 key)))"

subsection \<open>\<open>encryptSecret\<close> and \<open>decryptSecret\<close>\<close>

text \<open>
  \<open>crypto.createCipheriv('aes-256-gcm', key, iv)\<close> and \<open>createDecipheriv\<close> check
  their arguments in this order: an empty nonce is refused (a GCM nonce of any other
  length is accepted), then a key that is not 32 bytes long.
\<close>

definition createCipheriv :: "byte list \<Rightarrow> byte list \<Rightarrow> error + unit" where
  "createCipheriv key iv =
     (if iv = [] then Inl InvalidIV
      else if length key \<noteq> 32 then Inl InvalidKeyLength
      else Inr ())"

text \<open>
  \<open>decipher.setAuthTag(tag)\<close> in GCM mode, with no \<open>authTagLength\<close> option given,
  accepts a tag of 4, 8 or 12 to 16 bytes and throws for any other length.
\<close>

definition validGCMTagLength :: "nat \<Rightarrow> bool" where
  "validGCMTagLength n = (n = 4 \<or> n = 8 \<or> (12 \<le> n \<and> n \<le> 16))"

text \<open>\<open>buf.subarray(start, end)\<close>: both indices are clamped to the length.\<close>

definition subarray :: "'a list \<Rightarrow> nat \<Rightarrow> nat \<Rightarrow> 'a list" where
  "subarray buf start end = take (end - start) (drop start buf)"

text \<open>
  \<^verbatim>\<open>
  const key = getKey();
  const iv = crypto.randomBytes(IV_LENGTH);
  const cipher = crypto.createCipheriv('aes-256-gcm', key, iv);
  const enc = Buffer.concat([cipher.update(plain), cipher.final()]);
  const tag = cipher.getAuthTag();
  return Buffer.concat([iv, tag, enc]);
  \<close>
  The argument \<open>iv\<close> is what \<open>crypto.randomBytes(IV_LENGTH)\<close> returns in this call.
\<close>

definition encryptSecret :: "cryptolib \<Rightarrow> process_env \<Rightarrow> byte list \<Rightarrow> byte list \<Rightarrow> error + byte list" where
  "encryptSecret L env iv plain =
     (case getKey L env of
        Inl e \<Rightarrow> Inl e
      | Inr key \<Rightarrow>
          (case createCipheriv key iv of
             Inl e \<Rightarrow> Inl e
           | Inr _ \<Rightarrow>
               (case gcm_encrypt L key iv plain of
                  (enc, tag) \<Rightarrow> Inr (iv @ tag @ enc))))"

text \<open>
  \<^verbatim>\<open>
  const key = getKey();
  const iv = blob.subarray(0, IV_LENGTH);
  const tag = blob.subarray(IV_LENGTH, IV_LENGTH + 16);
  const enc = blob.subarray(IV_LENGTH + 16);
  const decipher = crypto.createDecipheriv('aes-256-gcm', key, iv);
  decipher.setAuthTag(tag);
  return Buffer.concat([decipher.update(enc), decipher.final()]);
  \<close>
  When \<open>decipher.final()\<close> throws, the whole call throws: what \<open>decipher.update\<close>
  returned before is never handed to the caller.
\<close>

definition decryptSecret :: "cryptolib \<Rightarrow> process_env \<Rightarrow> byte list \<Rightarrow> error + byte list" where
  "decryptSecret L env blob =
     (case getKey L env of
        Inl e \<Rightarrow> Inl e
      | Inr key \<Rightarrow>
          (let iv = subarray blob 0 IV_LENGTH;
               tag = subarray blob IV_LENGTH (IV_LENGTH + 16);
               enc = drop (IV_LENGTH + 16) blob
           in case createCipheriv key iv of
                Inl e \<Rightarrow> Inl e
              | Inr _ \<Rightarrow>
                  if \<not> validGCMTagLength (length tag) then Inl InvalidAuthTagLength
                  else (case gcm_decrypt L key iv tag enc of
                          None \<Rightarrow> Inl AuthFailed
                        | Some plain \<Rightarrow> Inr plain)))"

subsection \<open>What the model asks of AES-256-GCM\<close>

text \<open>
  The functional contract of the cipher, for the arguments the constructors accept:
  the tag of an encryption is 16 bytes long, and decrypting a ciphertext with the key,
  nonce and tag of its encryption gives the plaintext back.
\<close>

definition gcm_ok :: "cryptolib \<Rightarrow> bool" where
  "gcm_ok L =
     (\<forall>key iv plain. length key = 32 \<and> iv \<noteq> [] \<longrightarrow>
        (case gcm_encrypt L key iv plain of
           (enc, tag) \<Rightarrow> length tag = 16 \<and> gcm_decrypt L key iv tag enc = Some plain))"

subsection \<open>A small instance of the primitives, for concrete runs\<close>

text \<open>
  A stand-in for the primitives with the interface and the functional contract of the
  real ones (and none of their security): the pad is the sum of the key and nonce
  bytes, the ciphertext is the plaintext XOR the pad, the tag is 16 copies of a
  checksum, compared over the length of the tag presented, and the digest is 32 copies
  of the sum of the input.
\<close>

definition toy_pad :: "byte list \<Rightarrow> byte list \<Rightarrow> byte" where
  "toy_pad key iv = sum_list key + sum_list iv"

definition toy_tag :: "byte list \<Rightarrow> byte list \<Rightarrow> byte list \<Rightarrow> byte list" where
  "toy_tag key iv enc = replicate 16 (sum_list enc + toy_pad key iv + 1)"

definition toy_lib :: cryptolib where
  "toy_lib =
     \<lparr> sha256 = (\<lambda>bs. replicate 32 (sum_list bs)),
       gcm_encrypt = (\<lambda>key iv plain.
         (let enc = map (\<lambda>b. b XOR toy_pad key iv) plain in (enc, toy_tag key iv enc))),
       gcm_decrypt = (\<lambda>key iv tag enc.
         if tag = take (length tag) (toy_tag key iv enc)
         then Some (map (\<lambda>b. b XOR toy_pad key iv) enc) else None) \<rparr>"

section \<open>Properties of the Pattern Matcher\<close>

lemma endsWith_iff_append: "endsWith s p \<longleftrightarrow> (\<exists>pre. s = pre @ p)"
proof
  assume "endsWith s p"
  then have le: "length p \<le> length s" and d: "drop (length s - length p) s = p"
    by (auto simp: endsWith_def Let_def nat_diff_distrib' split: if_splits)
  have "s = take (length s - length p) s @ drop (length s - length p) s"
    by simp
  with d show "\<exists>pre. s = pre @ p" by metis
next
  assume "\<exists>pre. s = pre @ p"
  then obtain pre where "s = pre @ p" ..
  then show "endsWith s p"
    by (simp add: endsWith_def Let_def)
qed

text \<open>
  Claim C6. For every identifier \<open>pub\<close> and every pattern, \<open>matches pub pattern\<close> is true
  exactly when \<open>pub\<close> ends with the exact character sequence of \<open>pattern\<close>, that is when
  \<open>pub\<close> is some prefix followed by \<open>pattern\<close> (the library's \<open>suffix\<close> relation).
  \<open>matches\<close> is a function of its two arguments alone: it reads and writes no state.
\<close>

theorem matches_iff_suffix:
  "matches pub pattern = (\<exists>pre. pub = pre @ pattern) \<and>
   matches pub pattern = suffix pattern pub"
  by (simp add: matches_def endsWith_iff_append suffix_def)

section \<open>Properties of the Secret Sealer\<close>

lemma toy_lib_gcm_ok: "gcm_ok toy_lib"
proof -
  have "map ((\<lambda>b. b XOR p) \<circ> (\<lambda>b. b XOR p)) xs = xs" for p :: byte and xs
    by (induction xs) (simp_all add: xor.assoc)
  then show ?thesis
    by (simp add: gcm_ok_def toy_lib_def Let_def toy_tag_def)
qed

lemma layout_split:
  assumes "length iv = IV_LENGTH" and "length tag = 16"
  shows "subarray (iv @ tag @ enc) 0 IV_LENGTH = iv"
    and "subarray (iv @ tag @ enc) IV_LENGTH (IV_LENGTH + 16) = tag"
    and "drop (IV_LENGTH + 16) (iv @ tag @ enc) = enc"
  using assms by (simp_all add: subarray_def)

text \<open>
  Claim C2. With AES-256-GCM meeting its functional contract and a 12-byte nonce from
  the random source: whenever sealing \<open>s\<close> under the environment's key material yields
  a blob, unsealing that blob under the same key material returns exactly \<open>s\<close>; and
  sealing does yield a blob for every key material from which \<open>getKey\<close> derives a
  32-byte key.
\<close>

theorem decrypt_encrypt_roundtrip:
  assumes "gcm_ok L" and "length iv = IV_LENGTH"
  shows "(encryptSecret L env iv s = Inr blob \<longrightarrow> decryptSecret L env blob = Inr s) \<and>
         (getKey L env = Inr key \<and> length key = 32 \<longrightarrow>
            (\<exists>b. encryptSecret L env iv s = Inr b \<and> decryptSecret L env b = Inr s))"
proof -
  have rt: "decryptSecret L env (iv @ tag @ enc) = Inr s"
    if k: "getKey L env = Inr k" and len: "length k = 32"
      and e: "gcm_encrypt L k iv s = (enc, tag)" for k enc tag
  proof -
    from assms(2) have iv: "iv \<noteq> []" by (auto simp: IV_LENGTH_def)
    from assms(1) len iv e have tag: "length tag = 16"
      and dec: "gcm_decrypt L k iv tag enc = Some s"
      unfolding gcm_ok_def by (metis (mono_tags, lifting) case_prod_conv)+
    show ?thesis
      using k len iv tag dec layout_split [OF assms(2) tag, of enc]
      by (simp add: decryptSecret_def Let_def createCipheriv_def validGCMTagLength_def)
  qed
  have a: "encryptSecret L env iv s = Inr blob \<longrightarrow> decryptSecret L env blob = Inr s"
  proof
    assume enc: "encryptSecret L env iv s = Inr blob"
    then obtain k where k: "getKey L env = Inr k"
      by (auto simp: encryptSecret_def split: sum.splits)
    with enc have len: "length k = 32"
      by (auto simp: encryptSecret_def createCipheriv_def split: sum.splits if_splits)
    obtain enc' tag where e: "gcm_encrypt L k iv s = (enc', tag)"
      by (cases "gcm_encrypt L k iv s")
    with enc k have "blob = iv @ tag @ enc'"
      by (auto simp: encryptSecret_def split: sum.splits)
    with rt [OF k len e] show "decryptSecret L env blob = Inr s" by simp
  qed
  have b: "getKey L env = Inr key \<and> length key = 32 \<longrightarrow>
            (\<exists>b. encryptSecret L env iv s = Inr b \<and> decryptSecret L env b = Inr s)"
  proof
    assume h: "getKey L env = Inr key \<and> length key = 32"
    obtain enc' tag where e: "gcm_encrypt L key iv s = (enc', tag)"
      by (cases "gcm_encrypt L key iv s")
    from assms(2) have iv: "iv \<noteq> []" by (auto simp: IV_LENGTH_def)
    from h e iv have "encryptSecret L env iv s = Inr (iv @ tag @ enc')"
      by (simp add: encryptSecret_def createCipheriv_def)
    with rt [OF _ _ e] h show "\<exists>b. encryptSecret L env iv s = Inr b \<and> decryptSecret L env b = Inr s"
      by simp
  qed
  from a b show ?thesis ..
qed

end
